theory Spec2Isabelle
  imports Main "HOL-Library.Sublist"
begin

section \<open>Data model (src/types.ts)\<close>

text \<open>
  The TypeScript interfaces become records. Several interfaces share field names
  (\<open>id\<close>, \<open>tenantId\<close>, \<open>name\<close>), so each record prefixes its fields: \<open>r_\<close> for
  \<open>Resident\<close>, \<open>u_\<close> for \<open>User\<close>, \<open>p_\<close> for \<open>QRPayload\<close>, \<open>c_\<close> for its \<open>createdBy\<close>.
  An optional field (\<open>unit?: string\<close>) is an \<open>option\<close>: \<open>None\<close> is \<open>undefined\<close>.
\<close>

datatype Role = X | A | B

datatype resident_type = Resident | Family | Visitor | Delivery

datatype resident_status = Active | Inactive

record User =
  u_id :: string
  u_name :: string
  u_email :: string
  u_role :: Role
  u_tenantId :: string
  u_avatar :: string
  u_unit :: "string option"

record Resident =
  r_id :: string
  r_tenantId :: string
  r_name :: string
  r_unit :: string
  r_type :: resident_type
  r_status :: resident_status
  r_licensePlate :: "string option"
  r_expirationDate :: "string option"

section \<open>Dates of the platform\<close>

text \<open>
  \<open>new Date(s)\<close> is a function of the platform. Its time value is a number of
  milliseconds, or \<open>NaN\<close> for a string that is not a date (\<open>Invalid Date\<close>). The
  functions below take the platform's parser as a parameter \<open>Date_parse\<close>, with \<open>None\<close>
  for \<open>NaN\<close>. \<open>new Date()\<close>, the current time, is always a valid time value and is the
  parameter \<open>now\<close>.

  The relational operators on two \<open>Date\<close> objects compare their time values as numbers,
  and every comparison with \<open>NaN\<close> is false.
\<close>

definition date_le :: "int option \<Rightarrow> int \<Rightarrow> bool" where
  "date_le d now = (case d of None \<Rightarrow> False | Some t \<Rightarrow> t \<le> now)"

definition date_lt :: "int option \<Rightarrow> int \<Rightarrow> bool" where
  "date_lt d now = (case d of None \<Rightarrow> False | Some t \<Rightarrow> t < now)"

text \<open>Truthiness of an optional string: \<open>undefined\<close> and the empty string are falsy.\<close>

definition truthy_str :: "string option \<Rightarrow> bool" where
  "truthy_str v = (case v of None \<Rightarrow> False | Some s \<Rightarrow> s \<noteq> [])"

section \<open>The store of residents (src/hooks.ts, useLocalStorage)\<close>

text \<open>
  The state setter of the hook takes an updater function. React compares the value the
  updater returns with the current state by identity: when the updater returns the very
  array it was given, the state does not change, no render follows and the effect that
  writes \<open>localStorage\<close> does not run. Lists in HOL have no identity, so the result of
  an updater says which of the two it is: \<open>Same\<close> is the array that was passed in,
  \<open>Replaced xs\<close> is a newly built array.

  The store keeps the current value and counts the writes of the persisting effect.
\<close>

datatype 'a updated = Same | Replaced "'a list"

record 'a store =
  storedValue :: "'a list"
  writes :: nat

definition setValue :: "('a list \<Rightarrow> 'a updated) \<Rightarrow> 'a store \<Rightarrow> 'a store" where
  "setValue updater s =
     (case updater (storedValue s) of
        Same \<Rightarrow> s
      | Replaced v \<Rightarrow> s\<lparr>storedValue := v, writes := Suc (writes s)\<rparr>)"

section \<open>The expiration sweep (src/App.tsx, checkExpiration)\<close>

text \<open>
  The callback of \<open>currentResidents.filter\<close> returns whether the resident is kept and
  sets the captured variable \<open>hasChanges\<close> as a side effect. The model passes the
  variable in and returns it with the result.
\<close>

definition keep_resident ::
  "(string \<Rightarrow> int option) \<Rightarrow> int \<Rightarrow> Resident \<Rightarrow> bool \<Rightarrow> bool \<times> bool" where
  "keep_resident Date_parse now r hasChanges =
     (if \<not> truthy_str (r_expirationDate r) then (True, hasChanges)
      else
        let expDate = Date_parse (the (r_expirationDate r));
            isExpired = date_le expDate now
        in (\<not> isExpired, (if isExpired then True else hasChanges)))"

text \<open>\<open>Array.prototype.filter\<close> with a callback that threads a state, left to right.\<close>

fun filter_st :: "('a \<Rightarrow> 's \<Rightarrow> bool \<times> 's) \<Rightarrow> 'a list \<Rightarrow> 's \<Rightarrow> 'a list \<times> 's" where
  "filter_st cb [] s = ([], s)"
| "filter_st cb (x # xs) s =
     (case cb x s of
        (keep, s') \<Rightarrow>
          (case filter_st cb xs s' of
             (ys, s'') \<Rightarrow> (if keep then x # ys else ys, s'')))"

definition expiration_updater ::
  "(string \<Rightarrow> int option) \<Rightarrow> int \<Rightarrow> Resident list \<Rightarrow> Resident updated" where
  "expiration_updater Date_parse now currentResidents =
     (case filter_st (keep_resident Date_parse now) currentResidents False of
        (validResidents, hasChanges) \<Rightarrow>
          if hasChanges then Replaced validResidents else Same)"

definition checkExpiration ::
  "(string \<Rightarrow> int option) \<Rightarrow> int \<Rightarrow> Resident store \<Rightarrow> Resident store" where
  "checkExpiration Date_parse now s = setValue (expiration_updater Date_parse now) s"

text \<open>
  The policy in the words of the specification, to compare the code with: a grant is
  unset when it has no expiration date (the code treats the empty string the same way),
  and it is retained when it is unset or its time is strictly later than \<open>now\<close>.
\<close>

definition unset :: "Resident \<Rightarrow> bool" where
  "unset r = (r_expirationDate r = None \<or> r_expirationDate r = Some [])"

definition later :: "(string \<Rightarrow> int option) \<Rightarrow> int \<Rightarrow> Resident \<Rightarrow> bool" where
  "later Date_parse now r =
     (case r_expirationDate r of
        None \<Rightarrow> False
      | Some d \<Rightarrow> (case Date_parse d of None \<Rightarrow> False | Some t \<Rightarrow> now < t))"

definition due :: "(string \<Rightarrow> int option) \<Rightarrow> int \<Rightarrow> Resident \<Rightarrow> bool" where
  "due Date_parse now r =
     (case r_expirationDate r of
        None \<Rightarrow> False
      | Some d \<Rightarrow> d \<noteq> [] \<and> (case Date_parse d of None \<Rightarrow> False | Some t \<Rightarrow> t \<le> now))"

text \<open>A store is well dated when every expiration date in it is a date of the platform.\<close>

definition well_dated :: "(string \<Rightarrow> int option) \<Rightarrow> Resident list \<Rightarrow> bool" where
  "well_dated Date_parse rs =
     list_all (\<lambda>r. unset r \<or> Date_parse (the (r_expirationDate r)) \<noteq> None) rs"

definition tenantResidents :: "User option \<Rightarrow> Resident list \<Rightarrow> Resident list" where
  "tenantResidents currentUser residents =
     (case currentUser of
        None \<Rightarrow> []
      | Some u \<Rightarrow> filter (\<lambda>r. r_tenantId r = u_tenantId u) residents)"

section \<open>Values of the platform (JSON, property reads, truthiness)\<close>

text \<open>
  \<open>JSON.parse\<close> returns an arbitrary value, which the code then reads as a
  \<open>QRPayload\<close> without any check of its type. The model keeps the value as it is: a tree
  of null, booleans, numbers, strings, arrays and objects (an object is the list of its
  own properties, each key once, in insertion order). \<open>JUndefined\<close> is what reading an
  absent property gives. Numbers are integers here: the only number of a payload is
  \<open>generatedAt\<close>, a count of milliseconds.
\<close>

datatype jsval =
    JUndefined
  | JNull
  | JBool bool
  | JNum int
  | JStr string
  | JArr "jsval list"
  | JObj "(string \<times> jsval) list"

datatype js_error = SyntaxError | TypeError | Error

text \<open>
  Reading a property of \<open>null\<close> or \<open>undefined\<close> throws a \<open>TypeError\<close>. Reading one of
  the payload's property names from an object gives the property or \<open>undefined\<close>; from a
  boolean, number, string or array it gives \<open>undefined\<close>.
\<close>

definition throws_on_read :: "jsval \<Rightarrow> bool" where
  "throws_on_read v = (v = JNull \<or> v = JUndefined)"

fun get :: "jsval \<Rightarrow> string \<Rightarrow> jsval" where
  "get (JObj kvs) k = (case map_of kvs k of None \<Rightarrow> JUndefined | Some v \<Rightarrow> v)"
| "get v k = JUndefined"

fun truthy :: "jsval \<Rightarrow> bool" where
  "truthy JUndefined = False"
| "truthy JNull = False"
| "truthy (JBool b) = b"
| "truthy (JNum n) = (n \<noteq> 0)"
| "truthy (JStr s) = (s \<noteq> [])"
| "truthy (JArr vs) = True"
| "truthy (JObj kvs) = True"

text \<open>
  A template text converts the value it embeds to a string. For an object the
  conversion calls its \<open>toString\<close>, and a parsed object that has a property of that
  name has no callable one (nor a \<open>valueOf\<close> that gives a primitive), so the conversion
  throws a \<open>TypeError\<close>; an array converts its elements other than \<open>null\<close> and
  \<open>undefined\<close>, and throws when one of them does.
\<close>

fun template_throws :: "jsval \<Rightarrow> bool" where
  "template_throws (JObj kvs) = (map_of kvs ''toString'' \<noteq> None)"
| "template_throws (JArr vs) = list_ex template_throws vs"
| "template_throws v = False"

text \<open>
  The functions of the platform that the QR tools call are parameters of the model:
  \<^item> \<open>JSON_stringify\<close> and \<open>JSON_parse\<close> (\<open>None\<close> when \<open>JSON.parse\<close> throws its
    \<open>SyntaxError\<close>);
  \<^item> \<open>new_Date v\<close>, the time value of \<open>new Date(v)\<close>: \<open>Inr None\<close> is \<open>NaN\<close>
    (\<open>Invalid Date\<close>), \<open>Inl\<close> an exception thrown while the argument is converted;
  \<^item> \<open>toISOString t\<close>, the ISO text of the date with time value \<open>t\<close>;
  \<^item> \<open>randomUUID i\<close>, the result of \<open>crypto.randomUUID()\<close> in iteration \<open>i\<close> of the
    issuing loop;
  \<^item> \<open>Date_now 0\<close>, the reading of \<open>Date.now()\<close> for the default expiration, and
    \<open>Date_now (Suc i)\<close>, the reading in iteration \<open>i\<close> of the issuing loop.
\<close>

record platform =
  JSON_stringify :: "jsval \<Rightarrow> string"
  JSON_parse :: "string \<Rightarrow> jsval option"
  new_Date :: "jsval \<Rightarrow> js_error + int option"
  toISOString :: "int \<Rightarrow> string"
  randomUUID :: "nat \<Rightarrow> string"
  Date_now :: "nat \<Rightarrow> int"

section \<open>A model of JSON.stringify and JSON.parse\<close>

text \<open>
  The two functions of the platform, written out for the values of the model. Strings
  are lists of 8-bit characters here, so a character stands for a code unit below 256,
  and numbers are integers. The parser has three answers: \<open>Got v\<close> is the parsed value,
  \<open>Bad\<close> is the \<open>SyntaxError\<close>, and \<open>Beyond\<close> says that the text may be JSON but its
  value lies outside the model, which then says nothing about it: a number with a
  fraction or an exponent, an escape \<open>\uXXXX\<close> of a code unit from 256 on, and an
  object with an array-index key (the platform moves such keys to the front). An
  integer of the model stands for the number of the platform that equals it.
\<close>

datatype 'a outcome = Got 'a | Bad | Beyond

datatype token =
  LBrace | RBrace | LBracket | RBracket | Colon | Comma
  | TStr string | TNum int | TTrue | TFalse | TNull

subsection \<open>Serialising\<close>

text \<open>
  \<open>JSON.stringify\<close> with one argument writes no white space. In a string it escapes the
  double quote (0x22), the backslash (0x5C) and the control characters below 0x20: five
  of them by a letter, the others as \<open>\u00XX\<close> with lower-case hexadecimal digits. It
  writes an integer below \<open>10^21\<close> in magnitude in decimal digits, which covers every
  time value. A property whose value is \<open>undefined\<close> is left out, an \<open>undefined\<close> array
  element is written \<open>null\<close>, and \<open>undefined\<close> itself has no text: the model gives it
  the empty one.
\<close>

definition is_digit :: "char \<Rightarrow> bool" where
  "is_digit c = (c \<in> set ''0123456789'')"

definition digit_val :: "char \<Rightarrow> nat" where
  "digit_val c = of_char c - 48"

definition hexdigit :: "nat \<Rightarrow> char" where
  "hexdigit n = ''0123456789abcdef'' ! n"

definition unhex :: "char \<Rightarrow> nat option" where
  "unhex c =
     (if is_digit c then Some (of_char c - 48)
      else if c \<in> set ''abcdef'' then Some (of_char c - 87)
      else if c \<in> set ''ABCDEF'' then Some (of_char c - 55)
      else None)"

definition escape_char :: "char \<Rightarrow> string" where
  "escape_char c =
     (if c = CHR 0x22 then [CHR 0x5C, CHR 0x22]
      else if c = CHR 0x5C then [CHR 0x5C, CHR 0x5C]
      else if c = CHR 0x08 then [CHR 0x5C, CHR ''b'']
      else if c = CHR 0x0C then [CHR 0x5C, CHR ''f'']
      else if c = CHR 0x0A then [CHR 0x5C, CHR ''n'']
      else if c = CHR 0x0D then [CHR 0x5C, CHR ''r'']
      else if c = CHR 0x09 then [CHR 0x5C, CHR ''t'']
      else if (of_char c :: nat) < 32
      then [CHR 0x5C, CHR ''u'', CHR ''0'', CHR ''0'',
            hexdigit (of_char c div 16), hexdigit (of_char c mod 16)]
      else [c])"

definition quote :: "string \<Rightarrow> string" where
  "quote s = CHR 0x22 # concat (map escape_char s) @ [CHR 0x22]"

function digits :: "nat \<Rightarrow> string" where
  "digits n = (if n < 10 then [hexdigit n] else digits (n div 10) @ [hexdigit (n mod 10)])"
  by pat_completeness auto
termination
  by (relation "measure id") auto

declare digits.simps [simp del]

definition json_number :: "int \<Rightarrow> string" where
  "json_number n = (if n < 0 then CHR ''-'' # digits (nat (- n)) else digits (nat n))"

fun commas :: "string list \<Rightarrow> string" where
  "commas [] = []"
| "commas [x] = x"
| "commas (x # y # ys) = x @ CHR '','' # commas (y # ys)"

fun json_stringify :: "jsval \<Rightarrow> string" where
  "json_stringify JUndefined = []"
| "json_stringify JNull = ''null''"
| "json_stringify (JBool b) = (if b then ''true'' else ''false'')"
| "json_stringify (JNum n) = json_number n"
| "json_stringify (JStr s) = quote s"
| "json_stringify (JArr vs) =
     CHR ''['' # commas (map (\<lambda>v. if v = JUndefined then ''null'' else json_stringify v) vs)
       @ '']''"
| "json_stringify (JObj kvs) =
     CHR ''{'' # commas (map (\<lambda>kv. quote (fst kv) @ CHR '':'' # json_stringify (snd kv))
                   (filter (\<lambda>kv. snd kv \<noteq> JUndefined) kvs)) @ ''}''"

subsection \<open>Lexing\<close>

text \<open>
  The lexer reads the text character by character. Between tokens it is in the mode
  \<open>Out\<close>; inside a string it collects the characters read so far (\<open>InStr\<close>), after a
  backslash it expects the escape (\<open>Esc\<close>) and after \<open>\u\<close> four hexadecimal digits
  (\<open>Uni\<close>); a number and a word (\<open>true\<close>, \<open>false\<close>, \<open>null\<close>) are collected up to the
  first character that cannot belong to them and are then checked as a whole.
\<close>

definition number_char :: "char \<Rightarrow> bool" where
  "number_char c = (is_digit c \<or> c \<in> set ''-+.eE'')"

definition letter :: "char \<Rightarrow> bool" where
  "letter c = (c \<in> set ''abcdefghijklmnopqrstuvwxyz'')"

definition whitespace :: "char \<Rightarrow> bool" where
  "whitespace c = (c = CHR 0x20 \<or> c = CHR 0x09 \<or> c = CHR 0x0A \<or> c = CHR 0x0D)"

definition dec :: "string \<Rightarrow> nat" where
  "dec ds = foldl (\<lambda>a c. 10 * a + digit_val c) 0 ds"

definition int_part_ok :: "string \<Rightarrow> bool" where
  "int_part_ok ds = (ds \<noteq> [] \<and> list_all is_digit ds \<and> (length ds = 1 \<or> hd ds \<noteq> CHR ''0''))"

definition exp_ok :: "string \<Rightarrow> bool" where
  "exp_ok r =
     (case r of
        [] \<Rightarrow> False
      | e # r1 \<Rightarrow>
          (e = CHR ''e'' \<or> e = CHR ''E'') \<and>
          (case r1 of
             [] \<Rightarrow> False
           | s # r2 \<Rightarrow>
               if s = CHR ''+'' \<or> s = CHR ''-'' then r2 \<noteq> [] \<and> list_all is_digit r2
               else list_all is_digit r1))"

definition frac_exp_ok :: "string \<Rightarrow> bool" where
  "frac_exp_ok r =
     (case r of
        [] \<Rightarrow> False
      | d # r1 \<Rightarrow>
          if d = CHR ''.''
          then takeWhile is_digit r1 \<noteq> [] \<and>
               (dropWhile is_digit r1 = [] \<or> exp_ok (dropWhile is_digit r1))
          else exp_ok r)"

definition number_of :: "string \<Rightarrow> int outcome" where
  "number_of l =
     (let neg = (l \<noteq> [] \<and> hd l = CHR ''-'');
          body = (if neg then tl l else l);
          ip = takeWhile is_digit body;
          rest = dropWhile is_digit body
      in if int_part_ok ip
         then (if rest = [] then Got (if neg then - int (dec ip) else int (dec ip))
               else if frac_exp_ok rest then Beyond
               else Bad)
         else Bad)"

definition word_token :: "string \<Rightarrow> token option" where
  "word_token w =
     (if w = ''true'' then Some TTrue
      else if w = ''false'' then Some TFalse
      else if w = ''null'' then Some TNull
      else None)"

datatype mode =
  Out | InStr string | Esc string | Uni string "nat list" | InNum string | InWord string

definition out_step :: "token list \<Rightarrow> char \<Rightarrow> (mode \<times> token list) outcome" where
  "out_step ts c =
     (if whitespace c then Got (Out, ts)
      else if c = CHR ''{'' then Got (Out, ts @ [LBrace])
      else if c = CHR ''}'' then Got (Out, ts @ [RBrace])
      else if c = CHR ''['' then Got (Out, ts @ [LBracket])
      else if c = CHR '']'' then Got (Out, ts @ [RBracket])
      else if c = CHR '':'' then Got (Out, ts @ [Colon])
      else if c = CHR '','' then Got (Out, ts @ [Comma])
      else if c = CHR 0x22 then Got (InStr [], ts)
      else if c = CHR ''-'' \<or> is_digit c then Got (InNum [c], ts)
      else if letter c then Got (InWord [c], ts)
      else Bad)"

definition unescape :: "char \<Rightarrow> char option" where
  "unescape c =
     (if c = CHR 0x22 then Some (CHR 0x22)
      else if c = CHR 0x5C then Some (CHR 0x5C)
      else if c = CHR ''/'' then Some (CHR ''/'')
      else if c = CHR ''b'' then Some (CHR 0x08)
      else if c = CHR ''f'' then Some (CHR 0x0C)
      else if c = CHR ''n'' then Some (CHR 0x0A)
      else if c = CHR ''r'' then Some (CHR 0x0D)
      else if c = CHR ''t'' then Some (CHR 0x09)
      else None)"

fun lex_step :: "mode \<Rightarrow> token list \<Rightarrow> char \<Rightarrow> (mode \<times> token list) outcome" where
  "lex_step Out ts c = out_step ts c"
| "lex_step (InStr acc) ts c =
     (if c = CHR 0x22 then Got (Out, ts @ [TStr acc])
      else if c = CHR 0x5C then Got (Esc acc, ts)
      else if (of_char c :: nat) < 32 then Bad
      else Got (InStr (acc @ [c]), ts))"
| "lex_step (Esc acc) ts c =
     (if c = CHR ''u'' then Got (Uni acc [], ts)
      else (case unescape c of
              None \<Rightarrow> Bad
            | Some d \<Rightarrow> Got (InStr (acc @ [d]), ts)))"
| "lex_step (Uni acc ds) ts c =
     (case unhex c of
        None \<Rightarrow> Bad
      | Some d \<Rightarrow>
          if length ds < 3 then Got (Uni acc (ds @ [d]), ts)
          else
            let v = foldl (\<lambda>a h. 16 * a + h) 0 (ds @ [d])
            in if v < 256 then Got (InStr (acc @ [char_of v]), ts) else Beyond)"
| "lex_step (InNum l) ts c =
     (if number_char c then Got (InNum (l @ [c]), ts)
      else (case number_of l of
              Got n \<Rightarrow> out_step (ts @ [TNum n]) c
            | Bad \<Rightarrow> Bad
            | Beyond \<Rightarrow> Beyond))"
| "lex_step (InWord w) ts c =
     (if letter c then Got (InWord (w @ [c]), ts)
      else (case word_token w of
              None \<Rightarrow> Bad
            | Some t \<Rightarrow> out_step (ts @ [t]) c))"

fun lex_end :: "mode \<Rightarrow> token list \<Rightarrow> token list outcome" where
  "lex_end Out ts = Got ts"
| "lex_end (InNum l) ts =
     (case number_of l of Got n \<Rightarrow> Got (ts @ [TNum n]) | Bad \<Rightarrow> Bad | Beyond \<Rightarrow> Beyond)"
| "lex_end (InWord w) ts =
     (case word_token w of None \<Rightarrow> Bad | Some t \<Rightarrow> Got (ts @ [t]))"
| "lex_end m ts = Bad"

fun lex :: "mode \<Rightarrow> token list \<Rightarrow> string \<Rightarrow> token list outcome" where
  "lex m ts [] = lex_end m ts"
| "lex m ts (c # cs) =
     (case lex_step m ts c of
        Got (m', ts') \<Rightarrow> lex m' ts' cs
      | Bad \<Rightarrow> Bad
      | Beyond \<Rightarrow> Beyond)"

subsection \<open>Parsing\<close>

text \<open>
  The parser reads the tokens one by one and keeps the containers that are still open
  on a stack: an array with its elements so far (\<open>FArr\<close>), an object with its properties
  so far (\<open>FObj\<close>), and an object that has read a key and waits for its value (\<open>FKey\<close>).
  Its state says what may come next: a value (\<open>Want\<close>), a first element or the end of an
  array (\<open>First\<close>), a first key or the end of an object (\<open>Key0\<close>), a key (\<open>Key\<close>), the
  colon (\<open>Col\<close>), a comma or the end of the container (\<open>After\<close>), or nothing more
  (\<open>Done\<close>). A key that occurs again replaces the value at the key's first place.
\<close>

datatype frame =
    FArr "jsval list"
  | FObj "(string \<times> jsval) list"
  | FKey "(string \<times> jsval) list" string

datatype pstate =
    Want "frame list"
  | First "frame list"
  | Key0 "frame list"
  | Key "frame list"
  | Col "frame list"
  | After "frame list"
  | Done jsval

fun put :: "(string \<times> jsval) list \<Rightarrow> string \<Rightarrow> jsval \<Rightarrow> (string \<times> jsval) list" where
  "put [] k v = [(k, v)]"
| "put (kv # kvs) k v = (if fst kv = k then (k, v) # kvs else kv # put kvs k v)"

definition index_key :: "string \<Rightarrow> bool" where
  "index_key k = int_part_ok k"

fun put_value :: "jsval \<Rightarrow> frame list \<Rightarrow> pstate outcome" where
  "put_value v [] = Got (Done v)"
| "put_value v (FArr vs # st) = Got (After (FArr (vs @ [v]) # st))"
| "put_value v (FKey kvs k # st) = Got (After (FObj (put kvs k v) # st))"
| "put_value v (FObj kvs # st) = Bad"

fun value_tok :: "token \<Rightarrow> frame list \<Rightarrow> pstate outcome" where
  "value_tok (TStr s) st = put_value (JStr s) st"
| "value_tok (TNum n) st = put_value (JNum n) st"
| "value_tok TTrue st = put_value (JBool True) st"
| "value_tok TFalse st = put_value (JBool False) st"
| "value_tok TNull st = put_value JNull st"
| "value_tok LBracket st = Got (First (FArr [] # st))"
| "value_tok LBrace st = Got (Key0 (FObj [] # st))"
| "value_tok t st = Bad"

fun close_tok :: "token \<Rightarrow> frame list \<Rightarrow> pstate outcome" where
  "close_tok RBracket (FArr vs # st) = put_value (JArr vs) st"
| "close_tok RBrace (FObj kvs # st) = put_value (JObj kvs) st"
| "close_tok t st = Bad"

fun key_tok :: "token \<Rightarrow> frame list \<Rightarrow> pstate outcome" where
  "key_tok (TStr k) (FObj kvs # st) =
     (if index_key k then Beyond else Got (Col (FKey kvs k # st)))"
| "key_tok t st = Bad"

fun pstep :: "pstate \<Rightarrow> token \<Rightarrow> pstate outcome" where
  "pstep (Want st) t = value_tok t st"
| "pstep (First st) t = (if t = RBracket then close_tok t st else value_tok t st)"
| "pstep (Key0 st) t = (if t = RBrace then close_tok t st else key_tok t st)"
| "pstep (Key st) t = key_tok t st"
| "pstep (Col st) t = (if t = Colon then Got (Want st) else Bad)"
| "pstep (After st) t =
     (if t = Comma
      then (case st of
              FArr vs # st' \<Rightarrow> Got (Want st)
            | FObj kvs # st' \<Rightarrow> Got (Key st)
            | _ \<Rightarrow> Bad)
      else close_tok t st)"
| "pstep (Done v) t = Bad"

fun run :: "pstate \<Rightarrow> token list \<Rightarrow> jsval outcome" where
  "run s [] = (case s of Done v \<Rightarrow> Got v | _ \<Rightarrow> Bad)"
| "run s (t # ts) =
     (case pstep s t of
        Got s' \<Rightarrow> run s' ts
      | Bad \<Rightarrow> Bad
      | Beyond \<Rightarrow> Beyond)"

definition json_parse :: "string \<Rightarrow> jsval outcome" where
  "json_parse raw =
     (case lex Out [] raw of
        Got ts \<Rightarrow> run (Want []) ts
      | Bad \<Rightarrow> Bad
      | Beyond \<Rightarrow> Beyond)"

section \<open>The payload of a QR code (QRPayload)\<close>

record Creator =
  c_name :: string
  c_role :: string
  c_id :: string

record QRPayload =
  p_id :: string
  p_tenantId :: string
  p_residentName :: string
  p_residentUnit :: string
  p_visitorName :: string
  p_createdBy :: Creator
  p_expiresAt :: string
  p_generatedAt :: int

fun role_string :: "Role \<Rightarrow> string" where
  "role_string X = ''X''"
| "role_string A = ''A''"
| "role_string B = ''B''"

text \<open>The object that a payload is at run time, with its properties in the order of the
  object literal.\<close>

definition toJson :: "QRPayload \<Rightarrow> jsval" where
  "toJson p =
     JObj [(''id'', JStr (p_id p)),
           (''tenantId'', JStr (p_tenantId p)),
           (''residentName'', JStr (p_residentName p)),
           (''residentUnit'', JStr (p_residentUnit p)),
           (''visitorName'', JStr (p_visitorName p)),
           (''createdBy'',
              JObj [(''name'', JStr (c_name (p_createdBy p))),
                    (''role'', JStr (c_role (p_createdBy p))),
                    (''id'', JStr (c_id (p_createdBy p)))]),
           (''expiresAt'', JStr (p_expiresAt p)),
           (''generatedAt'', JNum (p_generatedAt p))]"

text \<open>
  A platform has the modelled JSON when it serialises every payload object as the model
  does and parses every text as the model does, wherever the model has an answer.
\<close>

definition JSON_as_modelled :: "platform \<Rightarrow> bool" where
  "JSON_as_modelled pf =
     ((\<forall>p. JSON_stringify pf (toJson p) = json_stringify (toJson p)) \<and>
      (\<forall>raw. case json_parse raw of
                Got v \<Rightarrow> JSON_parse pf raw = Some v
              | Bad \<Rightarrow> JSON_parse pf raw = None
              | Beyond \<Rightarrow> True))"

section \<open>Issuing (QRGenerator, handleGenerate)\<close>

text \<open>
  The state of the generator component that \<open>handleGenerate\<close> reads and writes.
  \<open>quantity\<close> is a number of the platform: the input handler stores
  \<open>parseInt(e.target.value) || 1\<close>, any integer other than zero.
\<close>

record generator =
  selectedResidentId :: string
  expirationDate :: string
  quantity :: int
  generatedCodes :: "string list"

text \<open>The handler of the quantity input; \<open>None\<close> is the \<open>NaN\<close> of \<open>parseInt\<close>.\<close>

definition setQuantity_onChange :: "int option \<Rightarrow> generator \<Rightarrow> generator" where
  "setQuantity_onChange parsed g =
     g\<lparr>quantity := (case parsed of None \<Rightarrow> 1 | Some n \<Rightarrow> if n = 0 then 1 else n)\<rparr>"

definition new_payload :: "platform \<Rightarrow> User \<Rightarrow> Resident \<Rightarrow> string \<Rightarrow> nat \<Rightarrow> QRPayload" where
  "new_payload pf user selectedResident finalExpiration i =
     \<lparr>p_id = randomUUID pf i,
      p_tenantId = u_tenantId user,
      p_residentName = r_name selectedResident,
      p_residentUnit = r_unit selectedResident,
      p_visitorName = ''Invitado'',
      p_createdBy = \<lparr>c_name = u_name user, c_role = role_string (u_role user), c_id = u_id user\<rparr>,
      p_expiresAt = finalExpiration,
      p_generatedAt = Date_now pf (Suc i)\<rparr>"

function generate_loop ::
  "platform \<Rightarrow> User \<Rightarrow> Resident \<Rightarrow> string \<Rightarrow> int \<Rightarrow> nat \<Rightarrow> string list \<Rightarrow> string list" where
  "generate_loop pf user selectedResident finalExpiration qty i newCodes =
     (if int i < qty
      then generate_loop pf user selectedResident finalExpiration qty (Suc i)
             (newCodes @
              [JSON_stringify pf (toJson (new_payload pf user selectedResident finalExpiration i))])
      else newCodes)"
  by pat_completeness auto
termination
  by (relation "measure (\<lambda>(pf, user, r, e, qty, i, acc). nat (qty - int i))") auto

declare generate_loop.simps [simp del]

definition finalExpiration_of :: "platform \<Rightarrow> generator \<Rightarrow> string" where
  "finalExpiration_of pf g =
     (if expirationDate g \<noteq> [] then expirationDate g
      else toISOString pf (Date_now pf 0 + 24 * 60 * 60 * 1000))"

definition handleGenerate :: "platform \<Rightarrow> User \<Rightarrow> Resident list \<Rightarrow> generator \<Rightarrow> generator" where
  "handleGenerate pf user residents g =
     (if selectedResidentId g = [] then g
      else
        (case find (\<lambda>r. r_id r = selectedResidentId g) residents of
           None \<Rightarrow> g
         | Some selectedResident \<Rightarrow>
             g\<lparr>generatedCodes :=
                 generate_loop pf user selectedResident (finalExpiration_of pf g)
                   (quantity g) 0 []\<rparr>))"

section \<open>Validation (QRValidator, validateQR)\<close>

text \<open>
  The state of the validator component. The messages are texts in the source; each
  constructor stands for one of them and carries the value the text is built from:
  \<open>OtherTenant t\<close> for the message naming the tenant \<open>t\<close> found in the code,
  \<open>HasExpired e\<close> for the message naming the expiration \<open>e\<close>, \<open>NotCompatible\<close> for the
  message of the \<open>catch\<close> block, \<open>NoCamera\<close> for the message of a failed camera access,
  \<open>NoMessage\<close> for the empty text. \<open>srcObject\<close> is the stream held by the video element
  and \<open>requestRef\<close> the pending animation frame.
\<close>

datatype scan_status = Idle | Scanning | Valid | Invalid

datatype message = NoMessage | OtherTenant jsval | HasExpired jsval | NotCompatible | NoCamera

record validator =
  scanStatus :: scan_status
  scannedData :: "jsval option"
  errorMsg :: message
  srcObject :: "nat option"
  requestRef :: "nat option"

text \<open>
  The first statements of the \<open>try\<close> block decode the text: \<open>JSON.parse\<close>, then the
  structure check, which throws when one of the three properties is falsy.
\<close>

definition decode :: "platform \<Rightarrow> string \<Rightarrow> js_error + jsval" where
  "decode pf rawData =
     (case JSON_parse pf rawData of
        None \<Rightarrow> Inl SyntaxError
      | Some payload \<Rightarrow>
          if throws_on_read payload then Inl TypeError
          else if \<not> truthy (get payload ''tenantId'') \<or> \<not> truthy (get payload ''expiresAt'')
                  \<or> \<not> truthy (get payload ''visitorName'')
          then Inl Error
          else Inr payload)"

text \<open>
  The \<open>try\<close> block: \<open>Inl\<close> is an exception on its way to the \<open>catch\<close>. The message
  of the wrong-tenant branch is a template text that embeds \<open>payload.tenantId\<close>, so the
  branch throws when that conversion does, before any state is set.
\<close>

definition validateQR_try ::
  "platform \<Rightarrow> User \<Rightarrow> int \<Rightarrow> string \<Rightarrow> validator \<Rightarrow> js_error + validator" where
  "validateQR_try pf user now rawData s =
     (case decode pf rawData of
        Inl e \<Rightarrow> Inl e
      | Inr payload \<Rightarrow>
          if get payload ''tenantId'' \<noteq> JStr (u_tenantId user)
          then
            (if template_throws (get payload ''tenantId'') then Inl TypeError
             else Inr (s\<lparr>errorMsg := OtherTenant (get payload ''tenantId''),
                         scanStatus := Invalid\<rparr>))
          else
            (case new_Date pf (get payload ''expiresAt'') of
               Inl e \<Rightarrow> Inl e
             | Inr d \<Rightarrow>
                 if date_lt d now
                 then Inr (s\<lparr>errorMsg := HasExpired (get payload ''expiresAt''),
                             scanStatus := Invalid\<rparr>)
                 else Inr (s\<lparr>scannedData := Some payload, scanStatus := Valid\<rparr>)))"

definition validateQR :: "platform \<Rightarrow> User \<Rightarrow> int \<Rightarrow> string \<Rightarrow> validator \<Rightarrow> validator" where
  "validateQR pf user now rawData s =
     (case validateQR_try pf user now rawData s of
        Inl e \<Rightarrow> s\<lparr>errorMsg := NotCompatible, scanStatus := Invalid\<rparr>
      | Inr s' \<Rightarrow> s')"

text \<open>A payload is structurally complete when the three checked properties are not empty.\<close>

definition complete :: "QRPayload \<Rightarrow> bool" where
  "complete p = (p_tenantId p \<noteq> [] \<and> p_expiresAt p \<noteq> [] \<and> p_visitorName p \<noteq> [])"

text \<open>
  The panel of an accepted code (the JSX under \<open>scanStatus === 'valid' && scannedData\<close>)
  reads the properties it shows, in this order: \<open>visitorName\<close>, \<open>residentName\<close>,
  \<open>residentUnit\<close>, \<open>createdBy.name\<close>, \<open>createdBy.role\<close> and \<open>expiresAt\<close>. Reading a
  property of \<open>createdBy\<close> throws a \<open>TypeError\<close> when \<open>createdBy\<close> is \<open>undefined\<close> or
  \<open>null\<close>; the exception arises while the component renders, outside every \<open>try\<close>
  block. The result lists the values read (for the role, the label chosen); what React
  does with them is not modelled.
\<close>

definition valid_panel :: "validator \<Rightarrow> js_error + jsval list" where
  "valid_panel s =
     (case scannedData s of
        None \<Rightarrow> Inr []
      | Some d \<Rightarrow>
          if scanStatus s = Valid \<and> truthy d
          then
            (if throws_on_read (get d ''createdBy'') then Inl TypeError
             else Inr [get d ''visitorName'', get d ''residentName'', get d ''residentUnit'',
                       get (get d ''createdBy'') ''name'',
                       JStr (if get (get d ''createdBy'') ''role'' = JStr ''B''
                             then ''Propietario'' else ''Administrador''),
                       get d ''expiresAt''])
          else Inr [])"

section \<open>The scan session (QRValidator, startScan)\<close>

text \<open>
  \<open>startScan\<close> is an asynchronous function. It runs up to the \<open>await\<close> of the camera
  request, the component renders, and it resumes when the request is settled. The
  request either grants a stream or fails. The video element is mounted exactly while
  the status is \<open>Scanning\<close>, so that is when \<open>videoRef.current\<close> is set.
\<close>

datatype acquisition = Granted nat | Failed

definition startScan_begin :: "validator \<Rightarrow> validator" where
  "startScan_begin s = s\<lparr>scanStatus := Scanning, errorMsg := NoMessage, scannedData := None\<rparr>"

definition startScan_resume :: "acquisition \<Rightarrow> nat \<Rightarrow> validator \<Rightarrow> validator" where
  "startScan_resume acq frame s =
     (case acq of
        Granted stream \<Rightarrow>
          if scanStatus s = Scanning
          then s\<lparr>srcObject := Some stream, requestRef := Some frame\<rparr>
          else s
      | Failed \<Rightarrow> s\<lparr>errorMsg := NoCamera, scanStatus := Invalid\<rparr>)"

text \<open>The states the session goes through in one call, in order.\<close>

definition startScan :: "acquisition \<Rightarrow> nat \<Rightarrow> validator \<Rightarrow> validator list" where
  "startScan acq frame s =
     [startScan_begin s, startScan_resume acq frame (startScan_begin s)]"

section \<open>Derived quantities and example data\<close>

text \<open>The number of grants a sweep removes from a store.\<close>

definition removedCount :: "(string \<Rightarrow> int option) \<Rightarrow> int \<Rightarrow> Resident store \<Rightarrow> nat" where
  "removedCount Date_parse now s =
     length (storedValue s) - length (storedValue (checkExpiration Date_parse now s))"

text \<open>
  A small store for the examples: a visitor of tenant t1 whose access ends at minute 10,
  a resident of tenant t1 without expiration, and a visitor of tenant t2 whose access
  ends at minute 60. The example parser knows the two dates.
\<close>

definition example_Date_parse :: "string \<Rightarrow> int option" where
  "example_Date_parse d =
     (if d = ''1970-01-01T00:10'' then Some 600000
      else if d = ''1970-01-01T01:00'' then Some 3600000
      else None)"

definition example_r1 :: Resident where
  "example_r1 =
     \<lparr>r_id = ''r1'', r_tenantId = ''t1'', r_name = ''Pedro Repartidor'', r_unit = ''101'',
      r_type = Delivery, r_status = Active, r_licensePlate = None,
      r_expirationDate = Some ''1970-01-01T00:10''\<rparr>"

definition example_r2 :: Resident where
  "example_r2 =
     \<lparr>r_id = ''1'', r_tenantId = ''t1'', r_name = ''Juan Perez'', r_unit = ''101'',
      r_type = Resident, r_status = Active, r_licensePlate = Some ''GH-45-22'',
      r_expirationDate = None\<rparr>"

definition example_r3 :: Resident where
  "example_r3 =
     \<lparr>r_id = ''r3'', r_tenantId = ''t2'', r_name = ''Visita Torre'', r_unit = ''7'',
      r_type = Visitor, r_status = Active, r_licensePlate = None,
      r_expirationDate = Some ''1970-01-01T01:00''\<rparr>"

definition example_store :: "Resident store" where
  "example_store = \<lparr>storedValue = [example_r1, example_r2, example_r3], writes = 0\<rparr>"

definition example_user :: User where
  "example_user =
     \<lparr>u_id = ''u3'', u_name = ''Beto Residente'', u_email = ''beto@alerces.com'', u_role = B,
      u_tenantId = ''t1'', u_avatar = ''https://picsum.photos/seed/u3/200'',
      u_unit = Some ''101''\<rparr>"

text \<open>
  Data for the QR tools: the guard of tenant t1 who validates, a payload issued in
  tenant t1 that expires at minute 60, the same payload issued in tenant t2, and the same
  payload with an expiration text that is not a date. The example platform serialises
  the three objects to the texts QR-1, QR-2 and QR-3 and parses these texts back; every
  other text is not JSON for it. Its dates are those of the example parser.
\<close>

definition example_guard :: User where
  "example_guard =
     \<lparr>u_id = ''u2'', u_name = ''Ana Porteria'', u_email = ''ana@alerces.com'', u_role = A,
      u_tenantId = ''t1'', u_avatar = ''https://picsum.photos/seed/u2/200'', u_unit = None\<rparr>"

definition example_payload :: QRPayload where
  "example_payload =
     \<lparr>p_id = ''q1'', p_tenantId = ''t1'', p_residentName = ''Juan Perez'',
      p_residentUnit = ''101'', p_visitorName = ''Invitado'',
      p_createdBy = \<lparr>c_name = ''Beto Residente'', c_role = ''B'', c_id = ''u3''\<rparr>,
      p_expiresAt = ''1970-01-01T01:00'', p_generatedAt = 0\<rparr>"

definition example_foreign :: QRPayload where
  "example_foreign = example_payload\<lparr>p_tenantId := ''t2''\<rparr>"

definition example_undated :: QRPayload where
  "example_undated = example_payload\<lparr>p_expiresAt := ''pronto''\<rparr>"

definition example_stringify :: "jsval \<Rightarrow> string" where
  "example_stringify v =
     (if v = toJson example_payload then ''QR-1''
      else if v = toJson example_foreign then ''QR-2''
      else if v = toJson example_undated then ''QR-3''
      else ''QR'')"

definition example_parse :: "string \<Rightarrow> jsval option" where
  "example_parse raw =
     (if raw = ''QR-1'' then Some (toJson example_payload)
      else if raw = ''QR-2'' then Some (toJson example_foreign)
      else if raw = ''QR-3'' then Some (toJson example_undated)
      else None)"

definition example_new_Date :: "jsval \<Rightarrow> js_error + int option" where
  "example_new_Date v = (case v of JStr d \<Rightarrow> Inr (example_Date_parse d) | _ \<Rightarrow> Inr None)"

definition example_platform :: platform where
  "example_platform =
     \<lparr>JSON_stringify = example_stringify,
      JSON_parse = example_parse,
      new_Date = example_new_Date,
      toISOString = (\<lambda>t. if t = 86400000 then ''1970-01-02T00:00:00.000Z'' else ''1970''),
      randomUUID = (\<lambda>i. replicate (Suc i) (CHR ''u'')),
      Date_now = (\<lambda>i. 0)\<rparr>"

definition example_scanner :: validator where
  "example_scanner =
     \<lparr>scanStatus = Scanning, scannedData = None, errorMsg = NoMessage,
      srcObject = None, requestRef = None\<rparr>"

definition example_idle :: validator where
  "example_idle =
     \<lparr>scanStatus = Idle, scannedData = None, errorMsg = NoMessage,
      srcObject = None, requestRef = None\<rparr>"

definition example_generator :: generator where
  "example_generator =
     \<lparr>selectedResidentId = ''1'', expirationDate = [], quantity = 1, generatedCodes = []\<rparr>"

text \<open>
  Further data: a grant whose expiration text is not a date; the payload of tenant t2
  with an empty visitor name; an object with the three checked properties and nothing
  else, and its JSON text; and a platform whose JSON functions are the modelled ones.
\<close>

definition example_r4 :: Resident where
  "example_r4 =
     \<lparr>r_id = ''r4'', r_tenantId = ''t1'', r_name = ''Visita sin fecha'', r_unit = ''202'',
      r_type = Visitor, r_status = Active, r_licensePlate = None,
      r_expirationDate = Some ''pronto''\<rparr>"

definition example_unnamed :: QRPayload where
  "example_unnamed = example_foreign\<lparr>p_visitorName := []\<rparr>"

definition example_bare :: jsval where
  "example_bare =
     JObj [(''tenantId'', JStr ''t1''),
           (''expiresAt'', JStr ''1970-01-01T01:00''),
           (''visitorName'', JStr ''Invitado'')]"

definition example_bare_text :: string where
  "example_bare_text =
     ''{'' @ quote ''tenantId'' @ '':'' @ quote ''t1'' @ '','' @
     quote ''expiresAt'' @ '':'' @ quote ''1970-01-01T01:00'' @ '','' @
     quote ''visitorName'' @ '':'' @ quote ''Invitado'' @ ''}''"

definition example_json_platform :: platform where
  "example_json_platform =
     example_platform
       \<lparr>JSON_stringify := json_stringify,
        JSON_parse := (\<lambda>raw. case json_parse raw of Got v \<Rightarrow> Some v | _ \<Rightarrow> None)\<rparr>"

section \<open>Properties of the sweep\<close>

lemma keep_resident_fst:
  "fst (keep_resident Date_parse now r h) = (\<not> due Date_parse now r)"
  by (auto simp: keep_resident_def due_def truthy_str_def date_le_def Let_def
      split: option.splits)

lemma keep_resident_snd:
  "snd (keep_resident Date_parse now r h) = (h \<or> due Date_parse now r)"
  by (auto simp: keep_resident_def due_def truthy_str_def date_le_def Let_def
      split: option.splits)

lemma filter_st_keep_resident:
  "filter_st (keep_resident Date_parse now) rs h =
     (filter (\<lambda>r. \<not> due Date_parse now r) rs, h \<or> (\<exists>r \<in> set rs. due Date_parse now r))"
proof (induction rs arbitrary: h)
  case Nil
  show ?case by simp
next
  case (Cons r rs)
  obtain k h' where cb: "keep_resident Date_parse now r h = (k, h')"
    by (cases "keep_resident Date_parse now r h")
  from cb keep_resident_fst [of Date_parse now r h]
  have k: "k = (\<not> due Date_parse now r)" by simp
  from cb keep_resident_snd [of Date_parse now r h]
  have h': "h' = (h \<or> due Date_parse now r)" by simp
  show ?case
    using Cons.IH [of h'] by (auto simp: cb k h')
qed

lemma storedValue_checkExpiration:
  "storedValue (checkExpiration Date_parse now s) =
     filter (\<lambda>r. \<not> due Date_parse now r) (storedValue s)"
proof (cases "\<exists>r \<in> set (storedValue s). due Date_parse now r")
  case True
  then show ?thesis
    by (simp add: checkExpiration_def setValue_def expiration_updater_def
        filter_st_keep_resident)
next
  case False
  then have "filter (\<lambda>r. \<not> due Date_parse now r) (storedValue s) = storedValue s"
    by (simp add: filter_id_conv)
  with False show ?thesis
    by (simp add: checkExpiration_def setValue_def expiration_updater_def
        filter_st_keep_resident)
qed

lemma checkExpiration_no_due:
  "\<not> (\<exists>r \<in> set (storedValue s). due Date_parse now r) \<Longrightarrow>
     checkExpiration Date_parse now s = s"
  by (simp add: checkExpiration_def setValue_def expiration_updater_def
      filter_st_keep_resident)

lemma well_dated_not_due:
  "well_dated Date_parse rs \<Longrightarrow> r \<in> set rs \<Longrightarrow>
     (\<not> due Date_parse now r) = (unset r \<or> later Date_parse now r)"
  by (auto simp: well_dated_def list_all_iff due_def unset_def later_def
      split: option.splits)

lemma filter_keeps_length:
  "length (filter P xs) = length xs \<Longrightarrow> \<forall>x \<in> set xs. P x"
  using length_filter_less [of _ xs P] by fastforce

lemma example_sweep_660000:
  "checkExpiration example_Date_parse 660000 example_store =
     \<lparr>storedValue = [example_r2, example_r3], writes = 1\<rparr>"
  by (simp add: checkExpiration_def setValue_def expiration_updater_def keep_resident_def
      truthy_str_def date_le_def example_store_def example_r1_def example_r2_def
      example_r3_def example_Date_parse_def)

lemma example_sweep_300000:
  "checkExpiration example_Date_parse 300000 example_store = example_store"
  by (simp add: checkExpiration_def setValue_def expiration_updater_def keep_resident_def
      truthy_str_def date_le_def example_store_def example_r1_def example_r2_def
      example_r3_def example_Date_parse_def)

text \<open>
  C3, as the code has it. After a sweep at \<open>now\<close> of a store in which every expiration
  date that is set is a date of the platform, the store holds exactly the grants whose
  expiration date is unset or strictly later than \<open>now\<close>, in their order. On every
  store, a grant without expiration date is never removed, and a grant whose expiration
  date is at or before \<open>now\<close> is always removed.
\<close>

theorem sweep_retains_unset_or_later:
  "(well_dated Date_parse (storedValue s) \<longrightarrow>
      storedValue (checkExpiration Date_parse now s) =
        filter (\<lambda>r. unset r \<or> later Date_parse now r) (storedValue s))
   \<and> (\<forall>r \<in> set (storedValue s).
        unset r \<longrightarrow> r \<in> set (storedValue (checkExpiration Date_parse now s)))
   \<and> (\<forall>r \<in> set (storedValue s).
        due Date_parse now r \<longrightarrow> r \<notin> set (storedValue (checkExpiration Date_parse now s)))"
proof (intro conjI impI)
  assume wd: "well_dated Date_parse (storedValue s)"
  have "filter (\<lambda>r. \<not> due Date_parse now r) (storedValue s) =
          filter (\<lambda>r. unset r \<or> later Date_parse now r) (storedValue s)"
    using wd by (intro filter_cong refl) (rule well_dated_not_due)
  then show "storedValue (checkExpiration Date_parse now s) =
               filter (\<lambda>r. unset r \<or> later Date_parse now r) (storedValue s)"
    by (simp add: storedValue_checkExpiration)
next
  have kept: "\<And>r. unset r \<Longrightarrow> \<not> due Date_parse now r"
    by (auto simp: unset_def due_def)
  then show "\<forall>r \<in> set (storedValue s).
        unset r \<longrightarrow> r \<in> set (storedValue (checkExpiration Date_parse now s))"
    by (simp add: storedValue_checkExpiration)
next
  show "\<forall>r \<in> set (storedValue s).
        due Date_parse now r \<longrightarrow> r \<notin> set (storedValue (checkExpiration Date_parse now s))"
    by (simp add: storedValue_checkExpiration)
qed

theorem sweep_retains_unset_or_later_witness:
  "well_dated example_Date_parse (storedValue example_store)
   \<and> storedValue (checkExpiration example_Date_parse 660000 example_store) =
       filter (\<lambda>r. unset r \<or> later example_Date_parse 660000 r) (storedValue example_store)
   \<and> storedValue (checkExpiration example_Date_parse 660000 example_store) =
       [example_r2, example_r3]
   \<and> storedValue (checkExpiration example_Date_parse 300000 example_store) =
       [example_r1, example_r2, example_r3]"
proof -
  have wd: "well_dated example_Date_parse (storedValue example_store)"
    by (simp add: well_dated_def unset_def example_store_def example_r1_def example_r2_def
        example_r3_def example_Date_parse_def)
  have "storedValue (checkExpiration example_Date_parse 660000 example_store) =
       filter (\<lambda>r. unset r \<or> later example_Date_parse 660000 r) (storedValue example_store)"
    using sweep_retains_unset_or_later [of example_Date_parse example_store 660000,
        THEN conjunct1] wd by (rule mp)
  moreover have "storedValue (checkExpiration example_Date_parse 660000 example_store) =
       [example_r2, example_r3]"
    by (simp add: example_sweep_660000)
  moreover have "storedValue (checkExpiration example_Date_parse 300000 example_store) =
       [example_r1, example_r2, example_r3]"
    by (simp add: example_sweep_300000) (simp add: example_store_def)
  ultimately show ?thesis
    using wd by blast
qed

theorem sweep_keeps_unparseable_date:
  "r_expirationDate example_r4 = Some ''pronto''
   \<and> example_Date_parse ''pronto'' = None
   \<and> \<not> unset example_r4
   \<and> \<not> later example_Date_parse 660000 example_r4
   \<and> storedValue (checkExpiration example_Date_parse 660000
        \<lparr>storedValue = [example_r1, example_r4], writes = 0\<rparr>) = [example_r4]"
proof -
  have s: "storedValue (checkExpiration example_Date_parse 660000
        \<lparr>storedValue = [example_r1, example_r4], writes = 0\<rparr>) = [example_r4]"
    by (simp add: storedValue_checkExpiration due_def example_r1_def example_r4_def
        example_Date_parse_def)
  have u: "\<not> unset example_r4"
    by (simp add: unset_def example_r4_def)
  have l: "\<not> later example_Date_parse 660000 example_r4"
    by (simp add: later_def example_r4_def example_Date_parse_def)
  have e: "r_expirationDate example_r4 = Some ''pronto''" "example_Date_parse ''pronto'' = None"
    by (simp_all add: example_r4_def example_Date_parse_def)
  from e u l s show ?thesis
    by (intro conjI)
qed

text \<open>
  C7. A second sweep at the same \<open>now\<close> removes nothing and leaves the store as the
  first sweep left it, the count of writes included; and whenever a sweep removes no
  grant, the store after it is the store before it, with no write.
\<close>

theorem sweep_twice_no_rewrite:
  "removedCount Date_parse now (checkExpiration Date_parse now s) = 0
   \<and> checkExpiration Date_parse now (checkExpiration Date_parse now s) =
       checkExpiration Date_parse now s
   \<and> (removedCount Date_parse now s = 0 \<longrightarrow> checkExpiration Date_parse now s = s)"
proof (intro conjI impI)
  let ?s1 = "checkExpiration Date_parse now s"
  have none: "\<not> (\<exists>r \<in> set (storedValue ?s1). due Date_parse now r)"
    by (simp add: storedValue_checkExpiration)
  then show twice: "checkExpiration Date_parse now ?s1 = ?s1"
    by (rule checkExpiration_no_due)
  show "removedCount Date_parse now ?s1 = 0"
    unfolding removedCount_def twice by simp
next
  assume zero: "removedCount Date_parse now s = 0"
  have "length (filter (\<lambda>r. \<not> due Date_parse now r) (storedValue s)) \<le> length (storedValue s)"
    by (rule length_filter_le)
  with zero
  have "length (filter (\<lambda>r. \<not> due Date_parse now r) (storedValue s)) = length (storedValue s)"
    unfolding removedCount_def storedValue_checkExpiration by arith
  then have "\<forall>r \<in> set (storedValue s). \<not> due Date_parse now r"
    by (rule filter_keeps_length)
  then have "\<not> (\<exists>r \<in> set (storedValue s). due Date_parse now r)"
    by blast
  then show "checkExpiration Date_parse now s = s"
    by (rule checkExpiration_no_due)
qed

theorem sweep_twice_no_rewrite_witness:
  "removedCount example_Date_parse 660000 example_store = 1
   \<and> writes (checkExpiration example_Date_parse 660000 example_store) = 1
   \<and> removedCount example_Date_parse 660000
       (checkExpiration example_Date_parse 660000 example_store) = 0
   \<and> writes (checkExpiration example_Date_parse 660000
       (checkExpiration example_Date_parse 660000 example_store)) = 1
   \<and> removedCount example_Date_parse 300000 example_store = 0
   \<and> checkExpiration example_Date_parse 300000 example_store = example_store"
proof -
  have r0: "removedCount example_Date_parse 300000 example_store = 0"
    by (simp add: removedCount_def example_sweep_300000)
  have r1: "removedCount example_Date_parse 660000 example_store = 1"
    by (simp add: removedCount_def example_sweep_660000) (simp add: example_store_def)
  note i1 = sweep_twice_no_rewrite [of example_Date_parse 660000 example_store]
  note i2 = sweep_twice_no_rewrite [of example_Date_parse 300000 example_store]
  have a: "removedCount example_Date_parse 660000
       (checkExpiration example_Date_parse 660000 example_store) = 0"
    by (rule i1 [THEN conjunct1])
  have b: "writes (checkExpiration example_Date_parse 660000
       (checkExpiration example_Date_parse 660000 example_store)) = 1"
    unfolding i1 [THEN conjunct2, THEN conjunct1] by (simp add: example_sweep_660000)
  have c: "checkExpiration example_Date_parse 300000 example_store = example_store"
    using i2 [THEN conjunct2, THEN conjunct2] r0 by (rule mp)
  have d: "writes (checkExpiration example_Date_parse 660000 example_store) = 1"
    by (simp add: example_sweep_660000)
  from r1 d a b r0 c show ?thesis
    by (intro conjI)
qed

text \<open>
  C10. The sweep is a filter of the store and nothing else: the store after it is the
  store before it without the due grants, so every retained grant is the record it was
  and the retained grants are in their original order; and the filter does not look at
  the tenant: restricted to the residents of any user's tenant, the swept store is the
  sweep of that tenant's residents, and changing the tenant of a grant does not change
  whether it is due.
\<close>

theorem sweep_pure_filter:
  "storedValue (checkExpiration Date_parse now s) =
     filter (\<lambda>r. \<not> due Date_parse now r) (storedValue s)
   \<and> subseq (storedValue (checkExpiration Date_parse now s)) (storedValue s)
   \<and> tenantResidents (Some u) (storedValue (checkExpiration Date_parse now s)) =
       storedValue (checkExpiration Date_parse now
         (s\<lparr>storedValue := tenantResidents (Some u) (storedValue s)\<rparr>))
   \<and> due Date_parse now (r\<lparr>r_tenantId := t\<rparr>) = due Date_parse now r"
proof -
  have "filter (\<lambda>r. r_tenantId r = u_tenantId u)
          (filter (\<lambda>r. \<not> due Date_parse now r) (storedValue s)) =
        filter (\<lambda>r. \<not> due Date_parse now r)
          (filter (\<lambda>r. r_tenantId r = u_tenantId u) (storedValue s))"
    by (simp add: conj_commute)
  then show ?thesis
    by (simp add: storedValue_checkExpiration tenantResidents_def due_def)
qed

theorem sweep_pure_filter_witness:
  "storedValue (checkExpiration example_Date_parse 3600000 example_store) = [example_r2]
   \<and> subseq [example_r2] (storedValue example_store)
   \<and> tenantResidents (Some example_user)
       (storedValue (checkExpiration example_Date_parse 3600000 example_store)) =
     storedValue (checkExpiration example_Date_parse 3600000
       (example_store\<lparr>storedValue :=
          tenantResidents (Some example_user) (storedValue example_store)\<rparr>))
   \<and> due example_Date_parse 3600000 (example_r3\<lparr>r_tenantId := ''t1''\<rparr>)"
proof -
  have d: "due example_Date_parse 3600000 example_r3"
    by (simp add: due_def example_r3_def example_Date_parse_def)
  have f: "filter (\<lambda>r. \<not> due example_Date_parse 3600000 r) (storedValue example_store) =
             [example_r2]"
    by (simp add: due_def example_store_def example_r1_def example_r2_def example_r3_def
        example_Date_parse_def)
  note inst = sweep_pure_filter [where Date_parse = example_Date_parse and now = 3600000
      and s = example_store and r = example_r3 and t = "''t1''" and u = example_user]
  have a: "storedValue (checkExpiration example_Date_parse 3600000 example_store) = [example_r2]"
    using inst [THEN conjunct1] f by simp
  have b: "subseq [example_r2] (storedValue example_store)"
    using inst [THEN conjunct2, THEN conjunct1] a by simp
  have c: "due example_Date_parse 3600000 (example_r3\<lparr>r_tenantId := ''t1''\<rparr>)"
    using inst [THEN conjunct2, THEN conjunct2, THEN conjunct2] d by simp
  from a b c inst [THEN conjunct2, THEN conjunct2, THEN conjunct1] show ?thesis
    by blast
qed

section \<open>Properties of the JSON model\<close>

lemma unhex_hexdigit: "n < 16 \<Longrightarrow> unhex (hexdigit n) = Some n"
proof -
  assume "n < 16"
  then have "n \<in> {0, 1, 2, 3, 4, 5, 6, 7, 8, 9, 10, 11, 12, 13, 14, 15}" by simp arith
  then show ?thesis
    by (elim insertE emptyE; simp add: hexdigit_def unhex_def is_digit_def)
qed

lemma is_digit_hexdigit: "n < 10 \<Longrightarrow> is_digit (hexdigit n)"
proof -
  assume "n < 10"
  then have "n \<in> set [0..<10]" by simp
  then show ?thesis
    by (auto simp: upt_rec hexdigit_def is_digit_def)
qed

lemma digit_val_hexdigit: "n < 10 \<Longrightarrow> digit_val (hexdigit n) = n"
proof -
  assume "n < 10"
  then have "n \<in> set [0..<10]" by simp
  then show ?thesis
    by (auto simp: upt_rec hexdigit_def digit_val_def)
qed

lemma hexdigit_zero: "n < 10 \<Longrightarrow> (hexdigit n = CHR ''0'') = (n = 0)"
proof -
  assume "n < 10"
  then have "n \<in> set [0..<10]" by simp
  then show ?thesis
    by (auto simp: upt_rec hexdigit_def)
qed

lemma lex_u_escape:
  assumes "n < 32"
  shows "lex (InStr acc) ts
           (CHR 0x5C # CHR ''u'' # CHR ''0'' # CHR ''0'' # hexdigit (n div 16) # hexdigit (n mod 16) # rest) =
         lex (InStr (acc @ [char_of n])) ts rest"
proof -
  have z: "unhex (CHR ''0'') = Some 0"
    by (simp add: unhex_def is_digit_def)
  have hi: "unhex (hexdigit (n div 16)) = Some (n div 16)"
    using assms by (intro unhex_hexdigit) simp
  have lo: "unhex (hexdigit (n mod 16)) = Some (n mod 16)"
    by (intro unhex_hexdigit) simp
  have v: "16 * (n div 16) + n mod 16 = n"
    by simp
  show ?thesis
    using assms by (simp add: z hi lo v)
qed

lemma lex_escape_char:
  "lex (InStr acc) ts (escape_char c @ rest) = lex (InStr (acc @ [c])) ts rest"
proof (cases "c \<in> {CHR 0x22, CHR 0x5C, CHR 0x08, CHR 0x0C, CHR 0x0A, CHR 0x0D, CHR 0x09}")
  case True
  then show ?thesis
    by (elim insertE emptyE; simp add: escape_char_def unescape_def)
next
  case False
  show ?thesis
  proof (cases "(of_char c :: nat) < 32")
    case True
    with False lex_u_escape [of "of_char c" acc ts rest] show ?thesis
      by (simp add: escape_char_def)
  next
    case ge: False
    with False show ?thesis
      by (simp add: escape_char_def)
  qed
qed

lemma lex_string_body:
  "lex (InStr acc) ts (concat (map escape_char s) @ rest) = lex (InStr (acc @ s)) ts rest"
proof (induction s arbitrary: acc)
  case Nil
  show ?case by simp
next
  case (Cons c s)
  have "lex (InStr acc) ts (concat (map escape_char (c # s)) @ rest) =
        lex (InStr acc) ts (escape_char c @ (concat (map escape_char s) @ rest))"
    by simp
  also have "\<dots> = lex (InStr (acc @ [c])) ts (concat (map escape_char s) @ rest)"
    by (rule lex_escape_char)
  also have "\<dots> = lex (InStr ((acc @ [c]) @ s)) ts rest"
    by (rule Cons.IH)
  finally show ?case by simp
qed

lemma lex_quote:
  "lex Out ts (quote s @ rest) = lex Out (ts @ [TStr s]) rest"
proof -
  have "lex Out ts (quote s @ rest) =
        lex (InStr []) ts (concat (map escape_char s) @ (CHR 0x22 # rest))"
    by (simp add: quote_def out_step_def whitespace_def)
  also have "\<dots> = lex (InStr ([] @ s)) ts (CHR 0x22 # rest)"
    by (rule lex_string_body)
  also have "\<dots> = lex Out (ts @ [TStr s]) rest"
    by simp
  finally show ?thesis .
qed

lemma digits_nonempty: "digits n \<noteq> []"
  by (subst digits.simps) simp

lemma digits_all: "list_all is_digit (digits n)"
proof (induction n rule: digits.induct)
  case (1 n)
  show ?case
  proof (cases "n < 10")
    case True
    then show ?thesis
      by (subst digits.simps) (simp add: is_digit_hexdigit)
  next
    case False
    with "1.IH" show ?thesis
      by (subst digits.simps) (simp add: is_digit_hexdigit)
  qed
qed

lemma dec_snoc: "dec (ds @ [d]) = 10 * dec ds + digit_val d"
  by (simp add: dec_def)

lemma dec_digits: "dec (digits n) = n"
proof (induction n rule: digits.induct)
  case (1 n)
  show ?case
  proof (cases "n < 10")
    case True
    then show ?thesis
      by (subst digits.simps) (simp add: dec_def digit_val_hexdigit)
  next
    case False
    with "1.IH" show ?thesis
      by (subst digits.simps) (simp add: dec_snoc digit_val_hexdigit)
  qed
qed

lemma hd_digits: "0 < n \<Longrightarrow> hd (digits n) \<noteq> CHR ''0''"
proof (induction n rule: digits.induct)
  case (1 n)
  show ?case
  proof (cases "n < 10")
    case True
    with "1.prems" show ?thesis
      by (subst digits.simps) (simp add: hexdigit_zero)
  next
    case False
    then have "0 < n div 10" by simp
    with False "1.IH" have "hd (digits (n div 10)) \<noteq> CHR ''0''" by simp
    with False show ?thesis
      by (subst digits.simps) (simp add: digits_nonempty)
  qed
qed

lemma digits_zero: "digits 0 = ''0''"
  by (subst digits.simps) (simp add: hexdigit_def)

lemma int_part_ok_digits: "int_part_ok (digits n)"
proof (cases "n = 0")
  case True
  then show ?thesis
    by (simp add: digits_zero int_part_ok_def is_digit_def)
next
  case False
  then have "hd (digits n) \<noteq> CHR ''0''"
    by (intro hd_digits) simp
  then show ?thesis
    by (simp add: int_part_ok_def digits_nonempty digits_all)
qed

lemma takeWhile_all: "list_all P xs \<Longrightarrow> takeWhile P xs = xs"
  by (induction xs) auto

lemma dropWhile_all: "list_all P xs \<Longrightarrow> dropWhile P xs = []"
  by (induction xs) auto

lemma hd_digits_not_minus: "hd (digits n) \<noteq> CHR ''-''"
proof -
  have "is_digit (hd (digits n))"
    using digits_all [of n] digits_nonempty [of n] by (cases "digits n") simp_all
  then show ?thesis
    by (auto simp: is_digit_def)
qed

lemma number_of_json_number: "number_of (json_number n) = Got n"
proof (cases "n < 0")
  case True
  then show ?thesis
    by (simp add: json_number_def number_of_def Let_def takeWhile_all dropWhile_all
        digits_all int_part_ok_digits dec_digits)
next
  case False
  then show ?thesis
    by (simp add: json_number_def number_of_def Let_def takeWhile_all dropWhile_all
        digits_all int_part_ok_digits dec_digits digits_nonempty hd_digits_not_minus)
qed

lemma json_number_chars: "list_all number_char (json_number n)"
proof -
  have "list_all number_char (digits n)" for n
    using digits_all [of n] by (simp add: list_all_iff number_char_def)
  then show ?thesis
    by (simp add: json_number_def number_char_def)
qed

lemma json_number_start:
  "\<exists>d ds. json_number n = d # ds \<and> (d = CHR ''-'' \<or> is_digit d)"
proof (cases "n < 0")
  case True
  then show ?thesis by (simp add: json_number_def)
next
  case False
  obtain d ds where eq: "digits (nat n) = d # ds"
    using digits_nonempty [of "nat n"] by (cases "digits (nat n)") auto
  with digits_all [of "nat n"] have "is_digit d" by simp
  with False eq show ?thesis by (simp add: json_number_def)
qed

lemma out_step_number_start:
  "d = CHR ''-'' \<or> is_digit d \<Longrightarrow> out_step ts d = Got (InNum [d], ts)"
  by (auto simp: out_step_def is_digit_def whitespace_def)

lemma lex_number_chars:
  "list_all number_char ds \<Longrightarrow> lex (InNum l) ts (ds @ rest) = lex (InNum (l @ ds)) ts rest"
  by (induction ds arbitrary: l) simp_all

lemma lex_json_number_close:
  "lex Out ts (json_number n @ CHR ''}'' # rest) = lex Out (ts @ [TNum n, RBrace]) rest"
proof -
  obtain d ds where eq: "json_number n = d # ds" and start: "d = CHR ''-'' \<or> is_digit d"
    using json_number_start by blast
  have chars: "list_all number_char ds"
    using json_number_chars [of n] by (simp add: eq)
  have "lex Out ts (json_number n @ CHR ''}'' # rest) = lex (InNum [d]) ts (ds @ CHR ''}'' # rest)"
    by (simp add: eq out_step_number_start [OF start])
  also have "\<dots> = lex (InNum ([d] @ ds)) ts (CHR ''}'' # rest)"
    using chars by (rule lex_number_chars)
  also have "\<dots> = lex Out (ts @ [TNum n, RBrace]) rest"
    using number_of_json_number [of n]
    by (simp add: eq number_char_def is_digit_def out_step_def whitespace_def)
  finally show ?thesis .
qed

lemma lex_open:
  "lex Out ts (CHR ''{'' # rest) = lex Out (ts @ [LBrace]) rest"
  "lex Out ts (CHR ''}'' # rest) = lex Out (ts @ [RBrace]) rest"
  "lex Out ts (CHR '':'' # rest) = lex Out (ts @ [Colon]) rest"
  "lex Out ts (CHR '','' # rest) = lex Out (ts @ [Comma]) rest"
  by (simp_all add: out_step_def whitespace_def)

lemma not_index_key:
  "\<not> index_key ''id''" "\<not> index_key ''tenantId''" "\<not> index_key ''residentName''"
  "\<not> index_key ''residentUnit''" "\<not> index_key ''visitorName''" "\<not> index_key ''createdBy''"
  "\<not> index_key ''name''" "\<not> index_key ''role''" "\<not> index_key ''expiresAt''"
  "\<not> index_key ''generatedAt''"
  by (simp_all add: index_key_def int_part_ok_def is_digit_def)

lemma lex_toJson:
  "lex Out [] (json_stringify (toJson c)) =
     Got [LBrace,
          TStr ''id'', Colon, TStr (p_id c), Comma,
          TStr ''tenantId'', Colon, TStr (p_tenantId c), Comma,
          TStr ''residentName'', Colon, TStr (p_residentName c), Comma,
          TStr ''residentUnit'', Colon, TStr (p_residentUnit c), Comma,
          TStr ''visitorName'', Colon, TStr (p_visitorName c), Comma,
          TStr ''createdBy'', Colon,
            LBrace,
            TStr ''name'', Colon, TStr (c_name (p_createdBy c)), Comma,
            TStr ''role'', Colon, TStr (c_role (p_createdBy c)), Comma,
            TStr ''id'', Colon, TStr (c_id (p_createdBy c)),
            RBrace, Comma,
          TStr ''expiresAt'', Colon, TStr (p_expiresAt c), Comma,
          TStr ''generatedAt'', Colon, TNum (p_generatedAt c),
          RBrace]"
  by (simp add: toJson_def lex_open lex_quote lex_json_number_close del: lex.simps) simp

lemma json_roundtrip: "json_parse (json_stringify (toJson c)) = Got (toJson c)"
  unfolding json_parse_def lex_toJson by (simp add: not_index_key) (simp add: toJson_def)

section \<open>Properties of validation\<close>

lemma get_toJson:
  "get (toJson c) ''tenantId'' = JStr (p_tenantId c)"
  "get (toJson c) ''expiresAt'' = JStr (p_expiresAt c)"
  "get (toJson c) ''visitorName'' = JStr (p_visitorName c)"
  by (simp_all add: toJson_def)

lemma toJson_inject: "toJson c' = toJson c \<Longrightarrow> c' = c"
  by (cases c, cases c', cases "p_createdBy c", cases "p_createdBy c'")
     (simp add: toJson_def)

lemma decode_toJson:
  "complete c \<Longrightarrow> JSON_parse pf raw = Some (toJson c) \<Longrightarrow> decode pf raw = Inr (toJson c)"
  by (simp add: decode_def get_toJson complete_def) (simp add: toJson_def throws_on_read_def)

lemma validateQR_decode_Inl:
  "decode pf raw = Inl e \<Longrightarrow>
     validateQR pf user now raw s = s\<lparr>errorMsg := NotCompatible, scanStatus := Invalid\<rparr>"
  by (simp add: validateQR_def validateQR_try_def)

lemma validateQR_tenant_template_throws:
  assumes "JSON_parse pf raw =
             Some (JObj [(''tenantId'', JObj [(''toString'', JNull)]),
                         (''expiresAt'', JStr e), (''visitorName'', JStr v)])"
    and "e \<noteq> []" and "v \<noteq> []"
  shows "validateQR pf user now raw s = s\<lparr>errorMsg := NotCompatible, scanStatus := Invalid\<rparr>"
  using assms by (simp add: validateQR_def validateQR_try_def decode_def throws_on_read_def)

lemma example_roundtrip:
  "JSON_parse example_platform (JSON_stringify example_platform (toJson example_payload)) =
     Some (toJson example_payload)"
  "JSON_parse example_platform (JSON_stringify example_platform (toJson example_foreign)) =
     Some (toJson example_foreign)"
  "JSON_parse example_platform (JSON_stringify example_platform (toJson example_undated)) =
     Some (toJson example_undated)"
  by (simp_all add: example_platform_def example_stringify_def example_parse_def
      toJson_def example_payload_def example_foreign_def example_undated_def)

lemma example_complete:
  "complete example_payload" "complete example_foreign" "complete example_undated"
  by (simp_all add: complete_def example_payload_def example_foreign_def example_undated_def)

lemma example_payload_date:
  "new_Date example_platform (JStr (p_expiresAt example_payload)) = Inr (Some 3600000)"
  by (simp add: example_platform_def example_new_Date_def example_Date_parse_def
      example_payload_def)

lemma example_payload_tenant: "p_tenantId example_payload = u_tenantId example_guard"
  by (simp add: example_payload_def example_guard_def)

lemma example_json_platform_modelled: "JSON_as_modelled example_json_platform"
  by (simp add: JSON_as_modelled_def example_json_platform_def split: outcome.splits)

lemma JSON_as_modelled_roundtrip:
  assumes "JSON_as_modelled pf"
  shows "JSON_parse pf (JSON_stringify pf (toJson c)) = Some (toJson c)"
proof -
  from assms have s: "JSON_stringify pf (toJson c) = json_stringify (toJson c)"
    by (simp add: JSON_as_modelled_def)
  from assms have "case json_parse (json_stringify (toJson c)) of
                Got v \<Rightarrow> JSON_parse pf (json_stringify (toJson c)) = Some v
              | Bad \<Rightarrow> JSON_parse pf (json_stringify (toJson c)) = None
              | Beyond \<Rightarrow> True"
    unfolding JSON_as_modelled_def by blast
  then show ?thesis
    by (simp add: s json_roundtrip)
qed

lemma decode_incomplete:
  "\<not> complete c \<Longrightarrow> JSON_parse pf raw = Some (toJson c) \<Longrightarrow> decode pf raw = Inl Error"
  by (auto simp: decode_def get_toJson complete_def) (simp_all add: toJson_def throws_on_read_def)

lemma example_unnamed_incomplete: "\<not> complete example_unnamed"
  by (simp add: complete_def example_unnamed_def)

lemma json_parse_example_bare: "json_parse example_bare_text = Got example_bare"
proof -
  have k: "\<not> index_key ''tenantId''" "\<not> index_key ''expiresAt''" "\<not> index_key ''visitorName''"
    by (simp_all add: index_key_def int_part_ok_def is_digit_def)
  have "lex Out [] example_bare_text =
          Got [LBrace, TStr ''tenantId'', Colon, TStr ''t1'', Comma,
               TStr ''expiresAt'', Colon, TStr ''1970-01-01T01:00'', Comma,
               TStr ''visitorName'', Colon, TStr ''Invitado'', RBrace]"
    by (simp add: example_bare_text_def lex_open lex_quote del: lex.simps) simp
  then show ?thesis
    by (simp add: json_parse_def k example_bare_def)
qed

text \<open>
  C1, as the code has it. For every structurally complete payload (tenant, expiration
  and visitor name not empty) whose tenant differs from the tenant of the validating
  user, validating its serialised text ends in the rejection that names the payload's
  tenant, whatever the current time is and whatever the platform makes of the
  expiration date: the tenant is compared before the expiration is looked at. The
  structure check comes first, so a payload that is not complete is rejected as an
  incompatible code whatever its tenant is.
\<close>

theorem validateQR_tenant_isolation:
  assumes "complete c"
    and "JSON_parse pf (JSON_stringify pf (toJson c)) = Some (toJson c)"
    and "p_tenantId c \<noteq> u_tenantId user"
  shows "validateQR pf user now (JSON_stringify pf (toJson c)) s =
           s\<lparr>errorMsg := OtherTenant (JStr (p_tenantId c)), scanStatus := Invalid\<rparr>"
proof -
  have "decode pf (JSON_stringify pf (toJson c)) = Inr (toJson c)"
    using assms(1,2) by (rule decode_toJson)
  with assms(3) show ?thesis
    by (simp add: validateQR_def validateQR_try_def get_toJson)
qed

theorem validateQR_tenant_isolation_witness:
  "complete example_foreign
   \<and> p_tenantId example_foreign \<noteq> u_tenantId example_guard
   \<and> date_lt (example_Date_parse (p_expiresAt example_foreign)) 7200000
   \<and> validateQR example_platform example_guard 7200000
        (JSON_stringify example_platform (toJson example_foreign)) example_scanner =
      example_scanner\<lparr>errorMsg := OtherTenant (JStr ''t2''), scanStatus := Invalid\<rparr>
   \<and> validateQR example_platform example_guard 0
        (JSON_stringify example_platform (toJson example_foreign)) example_scanner =
      example_scanner\<lparr>errorMsg := OtherTenant (JStr ''t2''), scanStatus := Invalid\<rparr>"
proof -
  have t: "p_tenantId example_foreign \<noteq> u_tenantId example_guard"
    by (simp add: example_foreign_def example_guard_def)
  have n: "p_tenantId example_foreign = ''t2''"
    by (simp add: example_foreign_def)
  have e: "date_lt (example_Date_parse (p_expiresAt example_foreign)) 7200000"
    by (simp add: date_lt_def example_Date_parse_def example_foreign_def example_payload_def)
  note inst = validateQR_tenant_isolation [OF example_complete(2) example_roundtrip(2) t]
  from inst [of 7200000 example_scanner] inst [of 0 example_scanner] t e show ?thesis
    unfolding n by (intro conjI example_complete(2))
qed

theorem validateQR_rejects_incomplete_foreign:
  "p_tenantId example_unnamed = ''t2''
   \<and> u_tenantId example_guard = ''t1''
   \<and> p_visitorName example_unnamed = []
   \<and> JSON_parse example_json_platform
        (JSON_stringify example_json_platform (toJson example_unnamed)) =
      Some (toJson example_unnamed)
   \<and> validateQR example_json_platform example_guard 0
        (JSON_stringify example_json_platform (toJson example_unnamed)) example_scanner =
      example_scanner\<lparr>errorMsg := NotCompatible, scanStatus := Invalid\<rparr>"
proof -
  have p: "JSON_parse example_json_platform
        (JSON_stringify example_json_platform (toJson example_unnamed)) =
      Some (toJson example_unnamed)"
    using example_json_platform_modelled by (rule JSON_as_modelled_roundtrip)
  have d: "decode example_json_platform
        (JSON_stringify example_json_platform (toJson example_unnamed)) = Inl Error"
    using example_unnamed_incomplete p by (rule decode_incomplete)
  have v: "validateQR example_json_platform example_guard 0
        (JSON_stringify example_json_platform (toJson example_unnamed)) example_scanner =
      example_scanner\<lparr>errorMsg := NotCompatible, scanStatus := Invalid\<rparr>"
    using d by (rule validateQR_decode_Inl)
  have t: "p_tenantId example_unnamed = ''t2''" "u_tenantId example_guard = ''t1''"
    "p_visitorName example_unnamed = []"
    by (simp_all add: example_unnamed_def example_foreign_def example_guard_def)
  from t p v show ?thesis
    by (intro conjI)
qed

text \<open>
  C2, as the code has it. For every structurally complete payload of the validator's
  own tenant whose expiration is a date, validation rejects the payload as expired
  exactly when the expiration is strictly before the current time, and accepts it
  otherwise; at the instant of expiration itself the payload is still accepted.
\<close>

theorem validateQR_expiry:
  assumes "complete c"
    and "JSON_parse pf (JSON_stringify pf (toJson c)) = Some (toJson c)"
    and "p_tenantId c = u_tenantId user"
    and "new_Date pf (JStr (p_expiresAt c)) = Inr (Some t)"
  shows "validateQR pf user now (JSON_stringify pf (toJson c)) s =
           (if t < now
            then s\<lparr>errorMsg := HasExpired (JStr (p_expiresAt c)), scanStatus := Invalid\<rparr>
            else s\<lparr>scannedData := Some (toJson c), scanStatus := Valid\<rparr>)"
proof -
  have "decode pf (JSON_stringify pf (toJson c)) = Inr (toJson c)"
    using assms(1,2) by (rule decode_toJson)
  with assms(3,4) show ?thesis
    by (simp add: validateQR_def validateQR_try_def get_toJson date_lt_def)
qed

theorem validateQR_expiry_witness:
  "complete example_payload
   \<and> p_tenantId example_payload = u_tenantId example_guard
   \<and> new_Date example_platform (JStr (p_expiresAt example_payload)) = Inr (Some 3600000)
   \<and> validateQR example_platform example_guard 3600001
        (JSON_stringify example_platform (toJson example_payload)) example_scanner =
      example_scanner\<lparr>errorMsg := HasExpired (JStr (p_expiresAt example_payload)),
        scanStatus := Invalid\<rparr>
   \<and> validateQR example_platform example_guard 3599999
        (JSON_stringify example_platform (toJson example_payload)) example_scanner =
      example_scanner\<lparr>scannedData := Some (toJson example_payload), scanStatus := Valid\<rparr>"
proof -
  note inst = validateQR_expiry [OF example_complete(1) example_roundtrip(1)
      example_payload_tenant example_payload_date]
  have a: "validateQR example_platform example_guard 3600001
        (JSON_stringify example_platform (toJson example_payload)) example_scanner =
      example_scanner\<lparr>errorMsg := HasExpired (JStr (p_expiresAt example_payload)),
        scanStatus := Invalid\<rparr>"
    using inst [of 3600001 example_scanner] by simp
  have b: "validateQR example_platform example_guard 3599999
        (JSON_stringify example_platform (toJson example_payload)) example_scanner =
      example_scanner\<lparr>scannedData := Some (toJson example_payload), scanStatus := Valid\<rparr>"
    using inst [of 3599999 example_scanner] by simp
  from a b show ?thesis
    by (intro conjI example_complete(1) example_payload_tenant example_payload_date)
qed

theorem validateQR_accepts_at_expiry_instant:
  "p_tenantId example_payload = u_tenantId example_guard
   \<and> new_Date example_platform (JStr (p_expiresAt example_payload)) = Inr (Some 3600000)
   \<and> scanStatus (validateQR example_platform example_guard 3600000
        (JSON_stringify example_platform (toJson example_payload)) example_scanner) = Valid
   \<and> errorMsg (validateQR example_platform example_guard 3600000
        (JSON_stringify example_platform (toJson example_payload)) example_scanner) = NoMessage"
proof -
  have d: "decode example_platform (JSON_stringify example_platform (toJson example_payload)) =
             Inr (toJson example_payload)"
    using example_complete(1) example_roundtrip(1) by (rule decode_toJson)
  have "validateQR example_platform example_guard 3600000
        (JSON_stringify example_platform (toJson example_payload)) example_scanner =
      example_scanner\<lparr>scannedData := Some (toJson example_payload), scanStatus := Valid\<rparr>"
    by (simp add: validateQR_def validateQR_try_def d get_toJson example_payload_tenant
        example_payload_date date_lt_def)
  then show ?thesis
    by (simp add: example_payload_tenant example_payload_date) (simp add: example_scanner_def)
qed

text \<open>
  C4. For every payload, the modelled parser reads the text that the modelled
  serialiser writes for the payload's object back into that object, and the object
  belongs to no other payload. On a platform with the modelled JSON, decoding the
  serialised text of a valid (structurally complete) payload therefore gives the
  payload again; a payload that is not complete does not decode.
\<close>

theorem decode_stringify_roundtrip:
  assumes "JSON_as_modelled pf"
  shows "json_parse (json_stringify (toJson c)) = Got (toJson c)
         \<and> (complete c \<longrightarrow> decode pf (JSON_stringify pf (toJson c)) = Inr (toJson c))
         \<and> (\<not> complete c \<longrightarrow> decode pf (JSON_stringify pf (toJson c)) = Inl Error)
         \<and> (\<forall>c'. toJson c' = toJson c \<longrightarrow> c' = c)"
proof (intro conjI impI allI)
  show "json_parse (json_stringify (toJson c)) = Got (toJson c)"
    by (rule json_roundtrip)
  note parsed = JSON_as_modelled_roundtrip [OF assms, of c]
  show "decode pf (JSON_stringify pf (toJson c)) = Inr (toJson c)" if "complete c"
    using that parsed by (rule decode_toJson)
  show "decode pf (JSON_stringify pf (toJson c)) = Inl Error" if "\<not> complete c"
    using that parsed by (rule decode_incomplete)
  show "c' = c" if "toJson c' = toJson c" for c'
    using that by (rule toJson_inject)
qed

theorem decode_stringify_roundtrip_witness:
  "JSON_as_modelled example_json_platform
   \<and> complete example_payload
   \<and> json_parse (json_stringify (toJson example_payload)) = Got (toJson example_payload)
   \<and> decode example_json_platform
        (JSON_stringify example_json_platform (toJson example_payload)) =
      Inr (toJson example_payload)
   \<and> \<not> complete example_unnamed
   \<and> decode example_json_platform
        (JSON_stringify example_json_platform (toJson example_unnamed)) = Inl Error"
proof -
  note i1 = decode_stringify_roundtrip [OF example_json_platform_modelled, of example_payload]
  note i2 = decode_stringify_roundtrip [OF example_json_platform_modelled, of example_unnamed]
  have a: "json_parse (json_stringify (toJson example_payload)) = Got (toJson example_payload)"
    by (rule i1 [THEN conjunct1])
  have b: "decode example_json_platform
        (JSON_stringify example_json_platform (toJson example_payload)) =
      Inr (toJson example_payload)"
    using i1 [THEN conjunct2, THEN conjunct1] example_complete(1) by (rule mp)
  have c: "decode example_json_platform
        (JSON_stringify example_json_platform (toJson example_unnamed)) = Inl Error"
    using i2 [THEN conjunct2, THEN conjunct2, THEN conjunct1] example_unnamed_incomplete
    by (rule mp)
  from a b c show ?thesis
    by (intro conjI example_json_platform_modelled example_complete(1)
        example_unnamed_incomplete)
qed

text \<open>
  C5 at a text with the three checked properties and nothing else, and at a payload
  whose expiration is not a date. The first is accepted and shown, and the panel that
  shows it throws when it reads \<open>createdBy.name\<close>; the second is accepted as well, at
  any time.
\<close>

theorem validateQR_accepts_incomplete_payloads:
  "JSON_parse example_json_platform example_bare_text = Some example_bare
   \<and> validateQR example_json_platform example_guard 0 example_bare_text example_scanner =
       example_scanner\<lparr>scannedData := Some example_bare, scanStatus := Valid\<rparr>
   \<and> valid_panel (example_scanner\<lparr>scannedData := Some example_bare, scanStatus := Valid\<rparr>) =
       Inl TypeError
   \<and> new_Date example_json_platform (JStr (p_expiresAt example_undated)) = Inr None
   \<and> scanStatus (validateQR example_json_platform example_guard 7200000
        (JSON_stringify example_json_platform (toJson example_undated)) example_scanner) = Valid"
proof -
  have p: "JSON_parse example_json_platform example_bare_text = Some example_bare"
    by (simp add: example_json_platform_def json_parse_example_bare)
  have d: "decode example_json_platform example_bare_text = Inr example_bare"
    by (simp add: decode_def p) (simp add: example_bare_def throws_on_read_def)
  have n: "new_Date example_json_platform (JStr ''1970-01-01T01:00'') = Inr (Some 3600000)"
    by (simp add: example_json_platform_def example_platform_def example_new_Date_def
        example_Date_parse_def)
  have v: "validateQR example_json_platform example_guard 0 example_bare_text example_scanner =
       example_scanner\<lparr>scannedData := Some example_bare, scanStatus := Valid\<rparr>"
    by (simp add: validateQR_def validateQR_try_def d)
       (simp add: example_bare_def example_guard_def n date_lt_def)
  have r: "valid_panel (example_scanner\<lparr>scannedData := Some example_bare, scanStatus := Valid\<rparr>) =
       Inl TypeError"
    by (simp add: valid_panel_def example_bare_def throws_on_read_def)
  have p2: "JSON_parse example_json_platform
        (JSON_stringify example_json_platform (toJson example_undated)) =
      Some (toJson example_undated)"
    using example_json_platform_modelled by (rule JSON_as_modelled_roundtrip)
  have d2: "decode example_json_platform
        (JSON_stringify example_json_platform (toJson example_undated)) =
      Inr (toJson example_undated)"
    using example_complete(3) p2 by (rule decode_toJson)
  have n2: "new_Date example_json_platform (JStr (p_expiresAt example_undated)) = Inr None"
    by (simp add: example_json_platform_def example_platform_def example_new_Date_def
        example_Date_parse_def example_undated_def)
  have t2: "p_tenantId example_undated = u_tenantId example_guard"
    by (simp add: example_undated_def example_payload_def example_guard_def)
  have v2: "scanStatus (validateQR example_json_platform example_guard 7200000
        (JSON_stringify example_json_platform (toJson example_undated)) example_scanner) = Valid"
    by (simp add: validateQR_def validateQR_try_def d2 get_toJson t2 n2 date_lt_def)
  from p v r n2 v2 show ?thesis
    by (intro conjI)
qed

section \<open>Properties of issuing\<close>

lemma generate_loop_closed:
  "generate_loop pf user r e qty i acc =
     acc @ map (\<lambda>k. JSON_stringify pf (toJson (new_payload pf user r e k))) [i..<nat qty]"
proof (induction pf user r e qty i acc rule: generate_loop.induct)
  case (1 pf user r e qty i acc)
  show ?case
  proof (cases "int i < qty")
    case True
    then have "i < nat qty" by simp
    then have "[i..<nat qty] = i # [Suc i..<nat qty]"
      by (rule upt_conv_Cons)
    with True "1.IH" show ?thesis
      by (subst generate_loop.simps) simp
  next
    case False
    then have "[i..<nat qty] = []" by simp
    with False show ?thesis
      by (subst generate_loop.simps) simp
  qed
qed

lemma handleGenerate_found:
  assumes "selectedResidentId g \<noteq> []"
    and "find (\<lambda>r. r_id r = selectedResidentId g) residents = Some host"
  shows "generatedCodes (handleGenerate pf user residents g) =
           map (\<lambda>k. JSON_stringify pf (toJson (new_payload pf user host (finalExpiration_of pf g) k)))
             [0..<nat (quantity g)]"
  using assms by (simp add: handleGenerate_def generate_loop_closed)




lemma example_host:
  "find (\<lambda>r. r_id r = ''1'')
     (tenantResidents (Some example_user) (storedValue example_store)) = Some example_r2"
  by (simp add: tenantResidents_def example_store_def example_user_def example_r1_def
      example_r2_def example_r3_def)



text \<open>
  C8 at a quantity above the bound. The quantity field accepts 21, and issuing then
  produces 21 codes; nothing rejects the quantity.
\<close>

theorem handleGenerate_quantity_21:
  "quantity (setQuantity_onChange (Some 21) example_generator) = 21
   \<and> length (generatedCodes (handleGenerate example_platform example_user
        (tenantResidents (Some example_user) (storedValue example_store))
        (setQuantity_onChange (Some 21) example_generator))) = 21"
proof -
  let ?g = "setQuantity_onChange (Some 21) example_generator"
  have q: "quantity ?g = 21"
    by (simp add: setQuantity_onChange_def)
  have s: "selectedResidentId ?g \<noteq> []"
    by (simp add: setQuantity_onChange_def example_generator_def)
  have h: "find (\<lambda>r. r_id r = selectedResidentId ?g)
     (tenantResidents (Some example_user) (storedValue example_store)) = Some example_r2"
    using example_host by (simp add: setQuantity_onChange_def example_generator_def)
  have "length (generatedCodes (handleGenerate example_platform example_user
        (tenantResidents (Some example_user) (storedValue example_store)) ?g)) =
        nat (quantity ?g)"
    by (simp add: handleGenerate_found [OF s h])
  with q show ?thesis by simp
qed

section \<open>Properties of the scan session\<close>

text \<open>
  C9, as the code has it. From any state, and so from the idle state, a start of the
  scan whose camera request fails goes through exactly two states: the first has the
  status scanning, set before the camera is requested, and the second has the status
  invalid with the message of the failed camera access. The session does enter the
  scanning status on its way to the rejection.
\<close>

theorem startScan_failed_trace:
  "map scanStatus (startScan Failed frame s) = [Scanning, Invalid]
   \<and> errorMsg (last (startScan Failed frame s)) = NoCamera
   \<and> srcObject (last (startScan Failed frame s)) = srcObject s"
proof -
  let ?s1 = "startScan_begin s"
  let ?s2 = "startScan_resume Failed frame ?s1"
  have trace: "startScan Failed frame s = [?s1, ?s2]"
    by (simp add: startScan_def)
  have first: "scanStatus ?s1 = Scanning"
    by (simp add: startScan_begin_def)
  have second: "?s2 = ?s1\<lparr>errorMsg := NoCamera, scanStatus := Invalid\<rparr>"
    by (simp add: startScan_resume_def)
  have stream: "srcObject ?s1 = srcObject s"
    by (simp add: startScan_begin_def)
  from first show ?thesis
    unfolding trace second by (simp add: stream)
qed

theorem startScan_failed_enters_scanning:
  "scanStatus example_idle = Idle
   \<and> scanStatus (hd (startScan Failed 0 example_idle)) = Scanning
   \<and> scanStatus (last (startScan Failed 0 example_idle)) = Invalid"
  by (simp add: startScan_def startScan_begin_def startScan_resume_def example_idle_def)

end
